theory Spec2Isabelle
  imports Main "HOL-Library.Word"
begin

section \<open>Configuration parsing of the compositor: \<^verbatim>\<open>src/config.h\<close>\<close>

text \<open>
  The header \<^verbatim>\<open>config.h\<close> declares the option model (\<^verbatim>\<open>win_option_t\<close>,
  \<^verbatim>\<open>win_option_mask_t\<close>, \<^verbatim>\<open>blur_strength_t\<close>, \<^verbatim>\<open>options_t\<close>), defines three
  inline parsers (\<^verbatim>\<open>parse_backend\<close>, \<^verbatim>\<open>parse_vsync\<close>, \<^verbatim>\<open>parse_kawase_blur_strength\<close>)
  and declares, without a body, \<^verbatim>\<open>set_default_winopts\<close>, \<^verbatim>\<open>condlst_add\<close>,
  \<^verbatim>\<open>parse_rule_opacity\<close> and \<^verbatim>\<open>parse_config\<close>.
\<close>

subsection \<open>Machine types\<close>

text \<open>
  \<^verbatim>\<open>int\<close> is a 32-bit two's-complement word, compared with the signed orders \<open><s\<close> and
  \<open>\<le>s\<close>. A \<^verbatim>\<open>float\<close> is kept as its IEEE-754 binary32 bit pattern and a \<^verbatim>\<open>double\<close> as
  its binary64 bit pattern: the code below only stores, copies and prints them.
\<close>

type_synonym c_int = "32 word"
type_synonym c_float = "32 word"
type_synonym c_double = "64 word"

subsection \<open>C strings and the two libc comparisons the parsers call\<close>

text \<open>
  A \<^verbatim>\<open>const char *\<close> argument is the list of its characters before the terminating NUL.
  \<^verbatim>\<open>strcmp\<close> returns a negative, zero or positive integer; only the sign is specified by
  the C standard, so the model returns \<open>-1\<close>, \<open>0\<close> or \<open>1\<close>. Characters compare as
  \<^verbatim>\<open>unsigned char\<close>.
\<close>

fun strcmp :: "string \<Rightarrow> string \<Rightarrow> int" where
  "strcmp [] [] = 0"
| "strcmp [] (d # ds) = - 1"
| "strcmp (c # cs) [] = 1"
| "strcmp (c # cs) (d # ds) =
     (if c = d then strcmp cs ds
      else if (of_char c :: nat) < of_char d then - 1 else 1)"

text \<open>
  \<^verbatim>\<open>tolower\<close> in the C locale: the 26 upper-case ASCII letters \<^verbatim>\<open>A\<close> (65) to \<^verbatim>\<open>Z\<close>
  (90) move to lower case, 32 higher; every other character stays.
\<close>

definition tolower :: "char \<Rightarrow> char" where
  "tolower c =
     (if (65::nat) \<le> of_char c \<and> of_char c \<le> (90::nat)
      then char_of (of_char c + (32::nat)) else c)"

text \<open>\<^verbatim>\<open>strcasecmp\<close> compares the two strings after \<^verbatim>\<open>tolower\<close> on every character.\<close>

definition strcasecmp :: "string \<Rightarrow> string \<Rightarrow> int" where
  "strcasecmp s t = strcmp (map tolower s) (map tolower t)"

subsection \<open>Diagnostics\<close>

text \<open>
  \<^verbatim>\<open>log_warn\<close>, \<^verbatim>\<open>log_error\<close> and \<^verbatim>\<open>log_info\<close> come from \<^verbatim>\<open>log.h\<close>. A call is recorded
  as an event: its level, its format string and its arguments. A function that logs
  returns its value together with the events it emitted, in order.
\<close>

datatype log_level = LOG_INFO | LOG_WARN | LOG_ERROR

datatype log_arg = Arg_int c_int | Arg_float c_float | Arg_str string

datatype log_event = Log log_level string "log_arg list"

fun level_of :: "log_event \<Rightarrow> log_level" where
  "level_of (Log l fmt args) = l"

subsection \<open>\<^verbatim>\<open>parse_vsync\<close>\<close>

text \<open>
  \<^verbatim>\<open>
  static inline bool parse_vsync(const char *str) {
      if (strcmp(str, "no") == 0 || strcmp(str, "none") == 0 ||
          strcmp(str, "false") == 0 || strcmp(str, "nah") == 0) {
          return false;
      }
      return true;
  }
  \<close>
\<close>

definition parse_vsync :: "string \<Rightarrow> bool" where
  "parse_vsync str =
     (if strcmp str ''no'' = 0 \<or> strcmp str ''none'' = 0 \<or>
         strcmp str ''false'' = 0 \<or> strcmp str ''nah'' = 0
      then False else True)"

subsection \<open>\<^verbatim>\<open>parse_kawase_blur_strength\<close>\<close>

text \<open>
  \<^verbatim>\<open>
  typedef struct blur_strength {
      int expand;
      int strength;
      int iterations;
      float offset;
  } blur_strength_t;
  \<close>
\<close>

record blur_strength =
  expand :: c_int
  strength :: c_int
  iterations :: c_int
  offset :: c_float

text \<open>
  The table \<^verbatim>\<open>static const blur_strength_t values[20]\<close> of the function, entry by entry
  (\<open>values\<close> is a keyword here, hence the longer name). The \<^verbatim>\<open>offset\<close> initialisers
  are, in order, 1.5, 2.0, 2.5, 3.0, 2.75, 3.5, 4.25, 5.0, 3.71429f, 4.42857f, 5.14286f,
  5.85714f, 6.57143f, 7.28571f, 8.0, 6.0, 7.0, 8.0, 9.0 and 10.0, each rounded to the
  nearest binary32 value.
\<close>

definition kawase_values :: "blur_strength list" where
  "kawase_values =
    [\<lparr>expand = 10, strength = 1, iterations = 1, offset = 0x3FC00000\<rparr>,
     \<lparr>expand = 10, strength = 2, iterations = 1, offset = 0x40000000\<rparr>,
     \<lparr>expand = 20, strength = 3, iterations = 2, offset = 0x40200000\<rparr>,
     \<lparr>expand = 20, strength = 4, iterations = 2, offset = 0x40400000\<rparr>,
     \<lparr>expand = 50, strength = 5, iterations = 3, offset = 0x40300000\<rparr>,
     \<lparr>expand = 50, strength = 6, iterations = 3, offset = 0x40600000\<rparr>,
     \<lparr>expand = 50, strength = 7, iterations = 3, offset = 0x40880000\<rparr>,
     \<lparr>expand = 50, strength = 8, iterations = 3, offset = 0x40A00000\<rparr>,
     \<lparr>expand = 150, strength = 9, iterations = 4, offset = 0x406DB6ED\<rparr>,
     \<lparr>expand = 150, strength = 10, iterations = 4, offset = 0x408DB6D8\<rparr>,
     \<lparr>expand = 150, strength = 11, iterations = 4, offset = 0x40A4924F\<rparr>,
     \<lparr>expand = 150, strength = 12, iterations = 4, offset = 0x40BB6DB1\<rparr>,
     \<lparr>expand = 150, strength = 13, iterations = 4, offset = 0x40D24928\<rparr>,
     \<lparr>expand = 150, strength = 14, iterations = 4, offset = 0x40E92489\<rparr>,
     \<lparr>expand = 150, strength = 15, iterations = 4, offset = 0x41000000\<rparr>,
     \<lparr>expand = 400, strength = 16, iterations = 5, offset = 0x40C00000\<rparr>,
     \<lparr>expand = 400, strength = 17, iterations = 5, offset = 0x40E00000\<rparr>,
     \<lparr>expand = 400, strength = 18, iterations = 5, offset = 0x41000000\<rparr>,
     \<lparr>expand = 400, strength = 19, iterations = 5, offset = 0x41100000\<rparr>,
     \<lparr>expand = 400, strength = 20, iterations = 5, offset = 0x41200000\<rparr>]"

text \<open>
  Reading a C array at an \<^verbatim>\<open>int\<close> subscript: outside the array the behaviour is
  undefined, which the model reports as \<open>None\<close>.
\<close>

definition array_get :: "'a list \<Rightarrow> int \<Rightarrow> 'a option" where
  "array_get xs i = (if 0 \<le> i \<and> i < int (length xs) then Some (xs ! nat i) else None)"

text \<open>
  \<^verbatim>\<open>
  if (level < 1 || level > 20) {
    log_error("(\"%d\"): Invalid blur_strength argument. Needs to be a number
               between 1 and 20. Will default to 5", level);
    return values[5];
  }
  log_info("blur-strength: %d [.iter = %d, .offset = %f, .expand = %d]",
  level, values[level - 1].iterations, values[level - 1].offset, values[level - 1].expand);
  return values[level - 1];
  \<close>
  The subscript \<^verbatim>\<open>level - 1\<close> is computed in \<^verbatim>\<open>int\<close>; on the branch that reaches it
  \<^verbatim>\<open>level\<close> is at least 1, so the subtraction does not overflow and is the integer
  \<open>sint level - 1\<close>. The result is the returned tuple with the diagnostics emitted, or
  \<open>None\<close> when an array read is out of bounds.
\<close>

definition parse_kawase_blur_strength :: "c_int \<Rightarrow> (blur_strength \<times> log_event list) option" where
  "parse_kawase_blur_strength level =
     (if level <s 1 \<or> 20 <s level then
        (case array_get kawase_values 5 of
           None \<Rightarrow> None
         | Some v \<Rightarrow>
             Some (v, [Log LOG_ERROR
               ''(\"%d\"): Invalid blur_strength argument. Needs to be a number between 1 and 20. Will default to 5''
               [Arg_int level]]))
      else
        (case array_get kawase_values (sint level - 1) of
           None \<Rightarrow> None
         | Some v \<Rightarrow>
             Some (v, [Log LOG_INFO
               ''blur-strength: %d [.iter = %d, .offset = %f, .expand = %d]''
               [Arg_int level, Arg_int (iterations v), Arg_float (offset v),
                Arg_int (expand v)]])))"

subsection \<open>\<^verbatim>\<open>parse_backend\<close>\<close>

text \<open>
  \<^verbatim>\<open>
  enum backend {
      BKEND_XRENDER,
      BKEND_GLX,
      BKEND_XR_GLX_HYBRID,
      BKEND_DUMMY,
      NUM_BKEND,
  };
  \<close>
  The loop of \<^verbatim>\<open>parse_backend\<close> counts in this type and returns the counter, so a value
  of the enumeration is the integer it stands for.
\<close>

type_synonym backend = nat

definition BKEND_XRENDER :: backend where "BKEND_XRENDER = 0"
definition BKEND_GLX :: backend where "BKEND_GLX = 1"
definition BKEND_XR_GLX_HYBRID :: backend where "BKEND_XR_GLX_HYBRID = 2"
definition BKEND_DUMMY :: backend where "BKEND_DUMMY = 3"
definition NUM_BKEND :: backend where "NUM_BKEND = 4"

text \<open>
  \<^verbatim>\<open>extern const char *const BACKEND_STRS[NUM_BKEND + 1];\<close> is declared in the header
  and initialised elsewhere, so the table is an argument of the model: a list of entries,
  \<open>Some name\<close> for a string and \<open>None\<close> for a \<^verbatim>\<open>NULL\<close> pointer.

  \<^verbatim>\<open>
  for (enum backend i = 0; BACKEND_STRS[i]; ++i) {
      if (!strcasecmp(str, BACKEND_STRS[i])) {
          return i;
      }
  }
  \<close>
  \<open>backend_loop\<close> takes the entries of the table from index \<open>i\<close> on. Its result is
  \<open>Some (Some i)\<close> when the loop returns \<open>i\<close>, \<open>Some None\<close> when the loop ends at a
  \<^verbatim>\<open>NULL\<close> entry, and \<open>None\<close> when the loop reads past the last entry of the array
  (undefined behaviour).
\<close>

fun backend_loop :: "string option list \<Rightarrow> string \<Rightarrow> backend \<Rightarrow> backend option option" where
  "backend_loop [] str i = None"
| "backend_loop (None # rest) str i = Some None"
| "backend_loop (Some name # rest) str i =
     (if strcasecmp str name = 0 then Some (Some i) else backend_loop rest str (Suc i))"

text \<open>
  \<^verbatim>\<open>
  // Keep compatibility with an old revision containing a spelling mistake...
  if (!strcasecmp(str, "xr_glx_hybird")) {
      log_warn("backend xr_glx_hybird should be xr_glx_hybrid, the misspelt "
               "version will be removed soon.");
      return BKEND_XR_GLX_HYBRID;
  }
  // cju wants to use dashes
  if (!strcasecmp(str, "xr-glx-hybrid")) {
      log_warn("backend xr-glx-hybrid should be xr_glx_hybrid, the alternative "
               "version will be removed soon.");
      return BKEND_XR_GLX_HYBRID;
  }
  log_error("Invalid backend argument: %s", str);
  return NUM_BKEND;
  \<close>
\<close>

definition parse_backend :: "string option list \<Rightarrow> string \<Rightarrow> (backend \<times> log_event list) option" where
  "parse_backend BACKEND_STRS str =
     (case backend_loop BACKEND_STRS str 0 of
        None \<Rightarrow> None
      | Some (Some i) \<Rightarrow> Some (i, [])
      | Some None \<Rightarrow>
          if strcasecmp str ''xr_glx_hybird'' = 0 then
            Some (BKEND_XR_GLX_HYBRID,
              [Log LOG_WARN
                ''backend xr_glx_hybird should be xr_glx_hybrid, the misspelt version will be removed soon.''
                []])
          else if strcasecmp str ''xr-glx-hybrid'' = 0 then
            Some (BKEND_XR_GLX_HYBRID,
              [Log LOG_WARN
                ''backend xr-glx-hybrid should be xr_glx_hybrid, the alternative version will be removed soon.''
                []])
          else
            Some (NUM_BKEND, [Log LOG_ERROR ''Invalid backend argument: %s'' [Arg_str str]]))"

text \<open>
  The canonical names of a table are its entries before the first \<^verbatim>\<open>NULL\<close>, in order;
  the name at position \<open>i\<close> of this list is \<^verbatim>\<open>BACKEND_STRS[i]\<close>.
\<close>

fun canonical_names :: "string option list \<Rightarrow> string list" where
  "canonical_names [] = []"
| "canonical_names (None # rest) = []"
| "canonical_names (Some name # rest) = name # canonical_names rest"

text \<open>
  A table for concrete evaluations. The initialiser of \<^verbatim>\<open>BACKEND_STRS\<close> is not in the
  header; this instance has the declared size \<^verbatim>\<open>NUM_BKEND + 1\<close> and lists, in the order
  of the enumeration, the lower-case names of its four constants, the third one being the
  spelling \<^verbatim>\<open>xr_glx_hybrid\<close> that the warnings of \<^verbatim>\<open>parse_backend\<close> call the right one.
\<close>

definition sample_backend_strs :: "string option list" where
  "sample_backend_strs =
     [Some ''xrender'', Some ''glx'', Some ''xr_glx_hybrid'', Some ''dummy'', None]"

subsection \<open>Window-type options and \<^verbatim>\<open>set_default_winopts\<close>\<close>

text \<open>
  \<^verbatim>\<open>
  typedef struct win_option_mask {
      bool shadow : 1;
      bool fade : 1;
      bool focus : 1;
      bool full_shadow : 1;
      bool redir_ignore : 1;
      bool opacity : 1;
      bool corner_radius : 1;
      bool round_borders : 1;
  } win_option_mask_t;

  typedef struct win_option {
      bool shadow;
      bool fade;
      bool focus;
      bool full_shadow;
      bool redir_ignore;
      double opacity;
      int corner_radius;
      int round_borders;
  } win_option_t;
  \<close>
  The two structures have the same field names; below a field is always written with its
  record, \<open>win_option_mask.shadow m\<close> or \<open>win_option.shadow w\<close>.
\<close>

record win_option_mask =
  shadow :: bool
  fade :: bool
  focus :: bool
  full_shadow :: bool
  redir_ignore :: bool
  opacity :: bool
  corner_radius :: bool
  round_borders :: bool

record win_option =
  shadow :: bool
  fade :: bool
  focus :: bool
  full_shadow :: bool
  redir_ignore :: bool
  opacity :: c_double
  corner_radius :: c_int
  round_borders :: c_int

text \<open>
  Of \<^verbatim>\<open>struct options\<close> the resolver concerns the member
  \<^verbatim>\<open>win_option_t wintype_option[NUM_WINTYPES]\<close>, an array with one entry per window
  type (\<^verbatim>\<open>NUM_WINTYPES\<close> comes from \<^verbatim>\<open>win_defs.h\<close>; it is the length of the list). The
  other members of the structure are the extension part of the record: every statement
  about \<open>'a options_scheme\<close> holds with any further fields beside this one.
\<close>

record options =
  wintype_option :: "win_option list"

text \<open>
  Modelled from the spec: the fixed "no override" sentinel values of the three numeric
  overrides. The specification says that they are fixed and does not give them, and no
  constant of \<^verbatim>\<open>config.h\<close> does, so they are an argument of the resolver.
\<close>

record winopt_unset =
  opacity_unset :: c_double
  corner_radius_unset :: c_int
  round_borders_unset :: c_int

text \<open>
  Modelled from the spec: the body of \<^verbatim>\<open>set_default_winopts\<close>, which \<^verbatim>\<open>config.h\<close> only
  declares as
  \<^verbatim>\<open>void set_default_winopts(options_t *, win_option_mask_t *, bool shadow_enable,
  bool fading_enable);\<close>
  Section 4.2 of the specification: for every window type and every overridable field, if
  the mask bit is set the existing value is left untouched; if unset, the field is
  assigned a computed default: shadow and fade take the corresponding global gate, the
  numeric overrides opacity, corner-radius and round-borders take their sentinel, focus,
  full-shadow and ignore-on-redirect take false. \<open>default_winopt\<close> is this step for
  one window type: \<open>m\<close> is the entry of the mask array and \<open>w\<close> the entry of
  \<^verbatim>\<open>wintype_option\<close> for the type.
\<close>

definition default_winopt ::
    "winopt_unset \<Rightarrow> bool \<Rightarrow> bool \<Rightarrow> win_option_mask \<Rightarrow> win_option \<Rightarrow> win_option" where
  "default_winopt unset shadow_enable fading_enable m w =
     \<lparr>win_option.shadow =
        (if win_option_mask.shadow m then win_option.shadow w else shadow_enable),
      win_option.fade =
        (if win_option_mask.fade m then win_option.fade w else fading_enable),
      win_option.focus =
        (if win_option_mask.focus m then win_option.focus w else False),
      win_option.full_shadow =
        (if win_option_mask.full_shadow m then win_option.full_shadow w else False),
      win_option.redir_ignore =
        (if win_option_mask.redir_ignore m then win_option.redir_ignore w else False),
      win_option.opacity =
        (if win_option_mask.opacity m then win_option.opacity w else opacity_unset unset),
      win_option.corner_radius =
        (if win_option_mask.corner_radius m then win_option.corner_radius w
         else corner_radius_unset unset),
      win_option.round_borders =
        (if win_option_mask.round_borders m then win_option.round_borders w
         else round_borders_unset unset)\<rparr>"

text \<open>
  Modelled from the spec: \<^verbatim>\<open>set_default_winopts\<close> itself applies the step to every
  window type, pairing the entry of \<^verbatim>\<open>wintype_option\<close> with the entry of the mask array
  at the same index. The result is the options structure behind the first pointer after
  the call.
\<close>

definition set_default_winopts ::
    "winopt_unset \<Rightarrow> 'a options_scheme \<Rightarrow> win_option_mask list \<Rightarrow> bool \<Rightarrow> bool
     \<Rightarrow> 'a options_scheme" where
  "set_default_winopts unset opt winopt_mask shadow_enable fading_enable =
     opt\<lparr>wintype_option :=
       map2 (default_winopt unset shadow_enable fading_enable) winopt_mask (wintype_option opt)\<rparr>"

text \<open>The \<^verbatim>\<open>double\<close> 0.5: sign 0, exponent \<open>-1\<close>, fraction 0.\<close>

definition double_half :: c_double where
  "double_half = 0x3FE0000000000000"

text \<open>
  An instance for concrete evaluations: two window types; nothing is set for the first,
  and for the second only the opacity, to 0.5.
\<close>

definition sample_unset :: winopt_unset where
  "sample_unset =
     \<lparr>opacity_unset = 0x7FF8000000000000, corner_radius_unset = - 1,
      round_borders_unset = - 1\<rparr>"

definition sample_winopt_mask :: "win_option_mask list" where
  "sample_winopt_mask =
     [\<lparr>win_option_mask.shadow = False, win_option_mask.fade = False,
       win_option_mask.focus = False, win_option_mask.full_shadow = False,
       win_option_mask.redir_ignore = False, win_option_mask.opacity = False,
       win_option_mask.corner_radius = False, win_option_mask.round_borders = False\<rparr>,
      \<lparr>win_option_mask.shadow = False, win_option_mask.fade = False,
       win_option_mask.focus = False, win_option_mask.full_shadow = False,
       win_option_mask.redir_ignore = False, win_option_mask.opacity = True,
       win_option_mask.corner_radius = False, win_option_mask.round_borders = False\<rparr>]"

definition sample_options :: options where
  "sample_options =
     \<lparr>wintype_option =
       [\<lparr>win_option.shadow = False, win_option.fade = True, win_option.focus = True,
         win_option.full_shadow = True, win_option.redir_ignore = True,
         win_option.opacity = 0, win_option.corner_radius = 7,
         win_option.round_borders = 3\<rparr>,
        \<lparr>win_option.shadow = False, win_option.fade = True, win_option.focus = True,
         win_option.full_shadow = False, win_option.redir_ignore = False,
         win_option.opacity = double_half, win_option.corner_radius = 0,
         win_option.round_borders = 0\<rparr>]\<rparr>"

subsection \<open>Condition lists: \<^verbatim>\<open>condlst_add\<close> and \<^verbatim>\<open>parse_rule_opacity\<close>\<close>

text \<open>
  \<^verbatim>\<open>typedef struct _c2_lptr c2_lptr_t;\<close> is opaque in \<^verbatim>\<open>config.h\<close>, and the two
  functions are only declared:
  \<^verbatim>\<open>
  bool must_use parse_rule_opacity(c2_lptr_t **, const char *);
  bool condlst_add(c2_lptr_t **, const char *);
  \<close>
\<close>

text \<open>
  Modelled from the spec: the condition list behind a \<^verbatim>\<open>c2_lptr_t *\<close>. Section 4.3 and
  the glossary describe it as an ordered collection of rules, each a parsed pattern with
  an optional attached value. A node is a pair of the parsed pattern and the attached
  value, and a list is the sequence of its nodes from the head on. The predicate grammar
  is external and opaque: the type \<open>'p\<close> of parsed patterns and the grammar's parser are
  arguments, as are the type \<open>'v\<close> of attached values and the parser of an opacity.
\<close>

type_synonym ('p, 'v) c2_lptr = "('p \<times> 'v option) list"

text \<open>
  Modelled from the spec: the insertion order. Section 4.3 leaves it to the implementer
  to pick first-parsed-first or last-parsed-first and to keep it; the pick is an argument.
\<close>

datatype insertion_order = First_parsed_first | Last_parsed_first

text \<open>
  Modelled from the spec: adding one node to a list under the order picked, at the end
  for first-parsed-first and at the head for last-parsed-first.
\<close>

definition c2_insert ::
    "insertion_order \<Rightarrow> 'p \<times> 'v option \<Rightarrow> ('p, 'v) c2_lptr \<Rightarrow> ('p, 'v) c2_lptr" where
  "c2_insert ord node lst =
     (case ord of First_parsed_first \<Rightarrow> lst @ [node] | Last_parsed_first \<Rightarrow> node # lst)"

text \<open>
  Modelled from the spec: the body of \<^verbatim>\<open>condlst_add\<close>. Section 4.3: it parses the
  pattern string with the external predicate grammar and, on success, adds a new node to
  the list; it returns failure without mutating the list on a grammar error. The result
  is the returned \<^verbatim>\<open>bool\<close> and the list behind the pointer afterwards.
\<close>

definition condlst_add ::
    "insertion_order \<Rightarrow> (string \<Rightarrow> 'p option) \<Rightarrow> ('p, 'v) c2_lptr \<Rightarrow> string
     \<Rightarrow> bool \<times> ('p, 'v) c2_lptr" where
  "condlst_add ord c2_parse lst pattern =
     (case c2_parse pattern of
        None \<Rightarrow> (False, lst)
      | Some p \<Rightarrow> (True, c2_insert ord (p, None) lst))"

text \<open>
  Modelled from the spec: the two parts of a rule string \<^verbatim>\<open>"<pattern>:<opacity>"\<close>. The
  opacity is what follows the last colon and the pattern what precedes it (a pattern may
  hold colons of its own); a string without a colon has no two parts.
\<close>

definition split_rule :: "string \<Rightarrow> (string \<times> string) option" where
  "split_rule src =
     (if CHR '':'' \<in> set src then
        Some (rev (tl (dropWhile (\<lambda>c. c \<noteq> CHR '':'') (rev src))),
              rev (takeWhile (\<lambda>c. c \<noteq> CHR '':'') (rev src)))
      else None)"

text \<open>
  Modelled from the spec: the body of \<^verbatim>\<open>parse_rule_opacity\<close>. Section 4.3: a
  specialisation accepting the combined syntax, parsing both parts and storing pattern
  plus attached value in one node on success, leaving the list unchanged on any parse
  failure in either part.
\<close>

definition parse_rule_opacity ::
    "insertion_order \<Rightarrow> (string \<Rightarrow> 'p option) \<Rightarrow> (string \<Rightarrow> 'v option) \<Rightarrow> ('p, 'v) c2_lptr
     \<Rightarrow> string \<Rightarrow> bool \<times> ('p, 'v) c2_lptr" where
  "parse_rule_opacity ord c2_parse parse_opacity lst src =
     (case split_rule src of
        None \<Rightarrow> (False, lst)
      | Some (pattern, opacity_str) \<Rightarrow>
          (case c2_parse pattern of
             None \<Rightarrow> (False, lst)
           | Some p \<Rightarrow>
               (case parse_opacity opacity_str of
                  None \<Rightarrow> (False, lst)
                | Some v \<Rightarrow> (True, c2_insert ord (p, Some v) lst))))"

text \<open>
  Modelled from the spec: consecutive calls of \<^verbatim>\<open>condlst_add\<close> on one list, one per pattern, as the loader
  makes them for an array-valued key: the values returned, in call order, and the list
  after the last call.
\<close>

fun condlst_add_all ::
    "insertion_order \<Rightarrow> (string \<Rightarrow> 'p option) \<Rightarrow> ('p, 'v) c2_lptr \<Rightarrow> string list
     \<Rightarrow> bool list \<times> ('p, 'v) c2_lptr" where
  "condlst_add_all ord c2_parse lst [] = ([], lst)"
| "condlst_add_all ord c2_parse lst (pattern # patterns) =
     (case condlst_add ord c2_parse lst pattern of
        (ok, lst') \<Rightarrow>
          (case condlst_add_all ord c2_parse lst' patterns of
             (oks, lst'') \<Rightarrow> (ok # oks, lst'')))"

text \<open>
  Stand-ins for the two external parsers, for concrete evaluations: a pattern is valid
  when it is not empty and is kept as it is; an opacity is a non-empty string of decimal
  digits and its value is the number of digits.
\<close>

definition sample_c2_parse :: "string \<Rightarrow> string option" where
  "sample_c2_parse pattern = (if pattern = [] then None else Some pattern)"

definition sample_parse_opacity :: "string \<Rightarrow> nat option" where
  "sample_parse_opacity opacity_str =
     (if opacity_str \<noteq> [] \<and> list_all (\<lambda>c. c \<in> set ''0123456789'') opacity_str
      then Some (length opacity_str) else None)"

section \<open>Properties\<close>

subsection \<open>The libc comparisons\<close>

lemma strcmp_eq_0_iff: "strcmp s t = 0 \<longleftrightarrow> s = t"
  by (induction s t rule: strcmp.induct) auto

lemma strcasecmp_eq_0_iff: "strcasecmp s t = 0 \<longleftrightarrow> map tolower s = map tolower t"
  by (simp add: strcasecmp_def strcmp_eq_0_iff)

subsection \<open>\<^verbatim>\<open>parse_vsync\<close>\<close>

text \<open>
  C4. \<^verbatim>\<open>parse_vsync\<close> returns false if and only if its argument is exactly one of
  \<^verbatim>\<open>"no"\<close>, \<^verbatim>\<open>"none"\<close>, \<^verbatim>\<open>"false"\<close>, \<^verbatim>\<open>"nah"\<close>, compared case-sensitively; every
  other string gives true, among them the other-case spellings \<^verbatim>\<open>"NO"\<close> and \<^verbatim>\<open>"False"\<close>.
\<close>

theorem parse_vsync_false_iff:
  "(parse_vsync str = False \<longleftrightarrow> str \<in> {''no'', ''none'', ''false'', ''nah''})
   \<and> parse_vsync ''NO'' = True \<and> parse_vsync ''False'' = True"
  by (simp add: parse_vsync_def strcmp_eq_0_iff)

subsection \<open>\<^verbatim>\<open>parse_kawase_blur_strength\<close>\<close>

lemma length_kawase_values: "length kawase_values = 20"
  by (simp add: kawase_values_def)

lemma distinct_kawase_values: "distinct kawase_values"
  by (simp add: kawase_values_def)

lemma level_out_of_range_iff:
  fixes level :: c_int
  shows "(level <s 1 \<or> 20 <s level) \<longleftrightarrow> (sint level < 1 \<or> 20 < sint level)"
  by (simp add: word_sless_alt)

lemma parse_kawase_in_range:
  assumes "1 \<le> sint level" and "sint level \<le> 20"
  shows "parse_kawase_blur_strength level =
     Some (kawase_values ! nat (sint level - 1),
       [Log LOG_INFO ''blur-strength: %d [.iter = %d, .offset = %f, .expand = %d]''
          [Arg_int level, Arg_int (iterations (kawase_values ! nat (sint level - 1))),
           Arg_float (offset (kawase_values ! nat (sint level - 1))),
           Arg_int (expand (kawase_values ! nat (sint level - 1)))]])"
  using assms
  by (simp add: parse_kawase_blur_strength_def level_out_of_range_iff array_get_def
      length_kawase_values)

lemma kawase_values_5: "array_get kawase_values 5 = Some (kawase_values ! 5)"
  by (simp add: array_get_def length_kawase_values)

lemma parse_kawase_out_of_range:
  assumes "sint level < 1 \<or> 20 < sint level"
  shows "parse_kawase_blur_strength level =
     Some (kawase_values ! 5,
       [Log LOG_ERROR
         ''(\"%d\"): Invalid blur_strength argument. Needs to be a number between 1 and 20. Will default to 5''
         [Arg_int level]])"
  using assms
  by (simp add: parse_kawase_blur_strength_def level_out_of_range_iff kawase_values_5)

lemma expand_sorted: "sorted_wrt (\<le>s) (map expand kawase_values)"
  by (simp add: kawase_values_def)

lemma iterations_sorted: "sorted_wrt (\<le>s) (map iterations kawase_values)"
  by (simp add: kawase_values_def word_sle_eq)

lemma strength_column: "map strength kawase_values = map of_nat [1..<21]"
  by (simp add: kawase_values_def upt_rec)

lemma strength_nth:
  assumes "i < 20" shows "strength (kawase_values ! i) = of_nat (Suc i)"
proof -
  have "strength (kawase_values ! i) = map strength kawase_values ! i"
    using assms by (simp add: length_kawase_values)
  also have "\<dots> = map of_nat [1..<21] ! i" by (simp only: strength_column)
  also have "\<dots> = of_nat (Suc i)" using assms by (simp del: upt_Suc)
  finally show ?thesis .
qed

lemma strength_of_level:
  fixes level :: c_int
  assumes "1 \<le> sint level" and "sint level \<le> 20"
  shows "strength (kawase_values ! nat (sint level - 1)) = level"
proof -
  have "nat (sint level - 1) < 20" using assms by linarith
  then have "strength (kawase_values ! nat (sint level - 1)) = of_nat (Suc (nat (sint level - 1)))"
    by (rule strength_nth)
  also have "Suc (nat (sint level - 1)) = nat (sint level)" using assms by linarith
  also have "of_nat (nat (sint level)) = (word_of_int (sint level) :: c_int)"
    using assms by simp
  also have "\<dots> = level" by simp
  finally show ?thesis .
qed

lemma expand_mono:
  assumes "i \<le> j" and "j < 20"
  shows "expand (kawase_values ! i) \<le>s expand (kawase_values ! j)"
proof (cases "i = j")
  case True then show ?thesis by simp
next
  case False
  with assms have "i < j" "j < length (map expand kawase_values)"
    by (simp_all add: length_kawase_values)
  with expand_sorted have "map expand kawase_values ! i \<le>s map expand kawase_values ! j"
    by (simp only: sorted_wrt_iff_nth_less)
  with assms show ?thesis by (simp add: length_kawase_values)
qed

lemma iterations_mono:
  assumes "i \<le> j" and "j < 20"
  shows "iterations (kawase_values ! i) \<le>s iterations (kawase_values ! j)"
proof (cases "i = j")
  case True then show ?thesis by simp
next
  case False
  with assms have "i < j" "j < length (map iterations kawase_values)"
    by (simp_all add: length_kawase_values)
  with iterations_sorted have "map iterations kawase_values ! i \<le>s map iterations kawase_values ! j"
    by (simp only: sorted_wrt_iff_nth_less)
  with assms show ?thesis by (simp add: length_kawase_values)
qed

lemma level_in_range_iff:
  fixes level :: c_int
  shows "(1 \<le>s level \<and> level \<le>s 20) \<longleftrightarrow> (1 \<le> sint level \<and> sint level \<le> 20)"
  by (simp add: word_sle_eq)

text \<open>
  C2. For every level in \<open>[1,20]\<close> the lookup returns the table entry at index
  \<open>level - 1\<close> (level 1 gives entry 0, level 20 gives entry 19) and logs no error; the
  20 entries are pairwise distinct; for every level outside \<open>[1,20]\<close> it returns entry 5,
  which is what level 6 returns and is neither entry 0 nor entry 19, and emits exactly one
  diagnostic, at error level.
\<close>

theorem parse_kawase_blur_strength_lookup:
  "(1 \<le>s level \<and> level \<le>s 20 \<longrightarrow>
      (\<exists>logs. parse_kawase_blur_strength level =
                 Some (kawase_values ! nat (sint level - 1), logs)
             \<and> LOG_ERROR \<notin> level_of ` set logs))
   \<and> (level <s 1 \<or> 20 <s level \<longrightarrow>
      (\<exists>fmt args. parse_kawase_blur_strength level =
                 Some (kawase_values ! 5, [Log LOG_ERROR fmt args]))
      \<and> map_option fst (parse_kawase_blur_strength level) =
        map_option fst (parse_kawase_blur_strength 6))
   \<and> map_option fst (parse_kawase_blur_strength 1) = Some (kawase_values ! 0)
   \<and> map_option fst (parse_kawase_blur_strength 20) = Some (kawase_values ! 19)
   \<and> length kawase_values = 20 \<and> distinct kawase_values
   \<and> kawase_values ! 5 \<noteq> kawase_values ! 0 \<and> kawase_values ! 5 \<noteq> kawase_values ! 19"
proof -
  have in_range: "1 \<le>s level \<and> level \<le>s 20 \<longrightarrow>
      (\<exists>logs. parse_kawase_blur_strength level =
                 Some (kawase_values ! nat (sint level - 1), logs)
             \<and> LOG_ERROR \<notin> level_of ` set logs)"
    by (simp add: level_in_range_iff parse_kawase_in_range)
  have six: "map_option fst (parse_kawase_blur_strength 6) = Some (kawase_values ! 5)"
    by (simp add: parse_kawase_in_range)
  have out_of_range: "level <s 1 \<or> 20 <s level \<longrightarrow>
      (\<exists>fmt args. parse_kawase_blur_strength level =
                 Some (kawase_values ! 5, [Log LOG_ERROR fmt args]))
      \<and> map_option fst (parse_kawase_blur_strength level) =
        map_option fst (parse_kawase_blur_strength 6)"
    by (simp add: level_out_of_range_iff parse_kawase_out_of_range six)
  have one: "map_option fst (parse_kawase_blur_strength 1) = Some (kawase_values ! 0)"
    by (simp add: parse_kawase_in_range)
  have twenty: "map_option fst (parse_kawase_blur_strength 20) = Some (kawase_values ! 19)"
    by (simp add: parse_kawase_in_range)
  have apart: "kawase_values ! 5 \<noteq> kawase_values ! 0 \<and> kawase_values ! 5 \<noteq> kawase_values ! 19"
    by (simp add: kawase_values_def)
  from in_range out_of_range one twenty apart show ?thesis
    by (simp only: length_kawase_values distinct_kawase_values simp_thms)
qed

text \<open>The lookup at levels 3 (in range), 0 and 21 (out of range).\<close>

theorem parse_kawase_blur_strength_lookup_witness:
  "map_option fst (parse_kawase_blur_strength 3) = Some (kawase_values ! 2)
   \<and> map_option fst (parse_kawase_blur_strength 0) = Some (kawase_values ! 5)
   \<and> map_option fst (parse_kawase_blur_strength 21) = Some (kawase_values ! 5)
   \<and> map_option (map level_of \<circ> snd) (parse_kawase_blur_strength 21) = Some [LOG_ERROR]"
  using parse_kawase_blur_strength_lookup [of 3] parse_kawase_blur_strength_lookup [of 0]
    parse_kawase_blur_strength_lookup [of 21]
  by (auto simp add: word_sle_eq word_sless_alt parse_kawase_in_range)

text \<open>
  C8. The lookup is total on \<^verbatim>\<open>int\<close>: for every 32-bit level the subscript it reads at is
  \<open>sint level - 1\<close> when the level is in \<open>[1,20]\<close> and 5 otherwise, this subscript lies
  in \<open>[0,19]\<close>, the read is inside the 20-entry table, the returned tuple is an entry of
  the table, and the error branch is taken exactly on the complement of \<open>[1,20]\<close>.
\<close>

theorem parse_kawase_blur_strength_total:
  "\<exists>i v logs.
      i = (if 1 \<le> sint level \<and> sint level \<le> 20 then sint level - 1 else 5)
    \<and> 0 \<le> i \<and> i \<le> 19
    \<and> array_get kawase_values i = Some v
    \<and> parse_kawase_blur_strength level = Some (v, logs)
    \<and> v \<in> set kawase_values
    \<and> length kawase_values = 20
    \<and> ((level <s 1 \<or> 20 <s level) \<longleftrightarrow> \<not> (1 \<le> sint level \<and> sint level \<le> 20))
    \<and> ((\<exists>fmt args. logs = [Log LOG_ERROR fmt args]) \<longleftrightarrow>
         \<not> (1 \<le> sint level \<and> sint level \<le> 20))"
proof (cases "1 \<le> sint level \<and> sint level \<le> 20")
  case True
  then have "nat (sint level - 1) < length kawase_values"
    by (simp add: length_kawase_values) linarith
  then have "kawase_values ! nat (sint level - 1) \<in> set kawase_values"
    by (rule nth_mem)
  with True show ?thesis
    by (simp add: parse_kawase_in_range array_get_def length_kawase_values
        level_out_of_range_iff)
next
  case False
  have "kawase_values ! 5 \<in> set kawase_values"
    by (rule nth_mem) (simp add: length_kawase_values)
  moreover from False have out: "sint level < 1 \<or> 20 < sint level"
    by linarith
  moreover note parse_kawase_out_of_range [OF out] kawase_values_5 length_kawase_values
  ultimately show ?thesis
    unfolding if_not_P [OF False] level_out_of_range_iff
    using False
    by (intro exI [of _ 5] exI [of _ "kawase_values ! 5"]
        exI [of _ "[Log LOG_ERROR
         ''(\"%d\"): Invalid blur_strength argument. Needs to be a number between 1 and 20. Will default to 5''
         [Arg_int level]]"]) simp

qed

text \<open>The lookup at \<^verbatim>\<open>INT_MIN\<close>, \<^verbatim>\<open>INT_MAX\<close> and 20.\<close>

theorem parse_kawase_blur_strength_total_witness:
  "map_option fst (parse_kawase_blur_strength (- 2147483648)) = Some (kawase_values ! 5)
   \<and> map_option fst (parse_kawase_blur_strength 2147483647) = Some (kawase_values ! 5)
   \<and> map_option fst (parse_kawase_blur_strength 20) = Some (kawase_values ! 19)"
  using parse_kawase_blur_strength_total [of "- 2147483648"]
    parse_kawase_blur_strength_total [of 2147483647]
    parse_kawase_blur_strength_total [of 20]
  by (auto simp add: array_get_def length_kawase_values)

text \<open>
  C9. For every level in \<open>[1,20]\<close> the \<^verbatim>\<open>strength\<close> field of the returned tuple is the
  level itself, and for levels \<open>l \<le> m\<close> in \<open>[1,20]\<close> the \<^verbatim>\<open>expand\<close> and
  \<^verbatim>\<open>iterations\<close> fields returned for \<open>l\<close> are at most those returned for \<open>m\<close>.
\<close>

theorem kawase_strength_is_level_and_monotone:
  "(1 \<le>s level \<and> level \<le>s 20 \<longrightarrow>
      (\<exists>v logs. parse_kawase_blur_strength level = Some (v, logs) \<and> strength v = level))
   \<and> (1 \<le>s l \<and> l \<le>s m \<and> m \<le>s 20 \<longrightarrow>
      (\<exists>v w logs logs'.
          parse_kawase_blur_strength l = Some (v, logs)
        \<and> parse_kawase_blur_strength m = Some (w, logs')
        \<and> expand v \<le>s expand w \<and> iterations v \<le>s iterations w))"
proof (intro conjI impI)
  assume "1 \<le>s level \<and> level \<le>s 20"
  then have r: "1 \<le> sint level" "sint level \<le> 20"
    by (simp_all add: level_in_range_iff)
  then show "\<exists>v logs. parse_kawase_blur_strength level = Some (v, logs) \<and> strength v = level"
    by (simp add: parse_kawase_in_range strength_of_level)
next
  assume "1 \<le>s l \<and> l \<le>s m \<and> m \<le>s 20"
  then have r: "1 \<le> sint l" "sint l \<le> sint m" "sint m \<le> 20"
    by (simp_all add: word_sle_eq)
  then have idx: "nat (sint l - 1) \<le> nat (sint m - 1)" "nat (sint m - 1) < 20"
    by linarith+
  from r have "sint l \<le> 20" "1 \<le> sint m" by linarith+
  with r idx show "\<exists>v w logs logs'.
          parse_kawase_blur_strength l = Some (v, logs)
        \<and> parse_kawase_blur_strength m = Some (w, logs')
        \<and> expand v \<le>s expand w \<and> iterations v \<le>s iterations w"
    by (simp add: parse_kawase_in_range expand_mono iterations_mono)
qed

text \<open>Level 7 has strength 7; levels 4 and 9 have \<^verbatim>\<open>expand\<close> 20 and 150.\<close>

theorem kawase_strength_is_level_and_monotone_witness:
  "map_option (strength \<circ> fst) (parse_kawase_blur_strength 7) = Some 7
   \<and> map_option (expand \<circ> fst) (parse_kawase_blur_strength 4) = Some 20
   \<and> map_option (expand \<circ> fst) (parse_kawase_blur_strength 9) = Some 150
   \<and> (20 :: c_int) \<le>s 150"
  using kawase_strength_is_level_and_monotone [of 7 4 9]
  by (auto simp add: word_sle_eq parse_kawase_in_range kawase_values_def)

subsection \<open>\<^verbatim>\<open>parse_backend\<close>\<close>

lemma backend_loop_defined:
  "None \<in> set tbl \<Longrightarrow> backend_loop tbl str i \<noteq> None"
  by (induction tbl str i rule: backend_loop.induct) auto

lemma length_canonical_names:
  "None \<in> set tbl \<Longrightarrow> length (canonical_names tbl) < length tbl"
  by (induction tbl rule: canonical_names.induct) auto

lemma backend_loop_no_match:
  "None \<in> set tbl \<Longrightarrow> \<forall>n\<in>set (canonical_names tbl). strcasecmp str n \<noteq> 0 \<Longrightarrow>
   backend_loop tbl str i = Some None"
  by (induction tbl str i rule: backend_loop.induct) auto

lemma backend_loop_first_match:
  "k < length (canonical_names tbl) \<Longrightarrow> strcasecmp str (canonical_names tbl ! k) = 0 \<Longrightarrow>
   \<forall>j<k. strcasecmp str (canonical_names tbl ! j) \<noteq> 0 \<Longrightarrow>
   backend_loop tbl str i = Some (Some (i + k))"
proof (induction tbl str i arbitrary: k rule: backend_loop.induct)
  case (3 name rest str i)
  show ?case
  proof (cases k)
    case 0
    with 3 show ?thesis by simp
  next
    case (Suc k')
    from 3(4) Suc have "strcasecmp str name \<noteq> 0" by auto
    moreover from 3(2,3,4) Suc have "backend_loop rest str (Suc i) = Some (Some (Suc i + k'))"
      by (intro 3(1)) (auto simp: \<open>strcasecmp str name \<noteq> 0\<close>)
    ultimately show ?thesis using Suc by simp
  qed
qed simp_all

lemma backend_loop_returns:
  "backend_loop tbl str i = Some (Some r) \<Longrightarrow>
   i \<le> r \<and> r - i < length (canonical_names tbl) \<and> strcasecmp str (canonical_names tbl ! (r - i)) = 0"
proof (induction tbl str i rule: backend_loop.induct)
  case (3 name rest str i)
  show ?case
  proof (cases "strcasecmp str name = 0")
    case True
    with 3 show ?thesis by simp
  next
    case False
    with 3 have ih: "Suc i \<le> r \<and> r - Suc i < length (canonical_names rest) \<and>
      strcasecmp str (canonical_names rest ! (r - Suc i)) = 0" by simp
    then have "r - i = Suc (r - Suc i)" by linarith
    with ih show ?thesis by simp
  qed
qed simp_all

lemma strcasecmp_hybird: "strcasecmp str ''xr_glx_hybird'' = 0 \<longleftrightarrow> map tolower str = ''xr_glx_hybird''"
  by (simp add: strcasecmp_eq_0_iff tolower_def)

lemma strcasecmp_dashes: "strcasecmp str ''xr-glx-hybrid'' = 0 \<longleftrightarrow> map tolower str = ''xr-glx-hybrid''"
  by (simp add: strcasecmp_eq_0_iff tolower_def)

lemma parse_backend_no_match:
  assumes "None \<in> set tbl"
    and "\<forall>n\<in>set (canonical_names tbl). map tolower str \<noteq> map tolower n"
  shows "parse_backend tbl str =
     (if map tolower str = ''xr_glx_hybird'' then
        Some (BKEND_XR_GLX_HYBRID,
          [Log LOG_WARN
            ''backend xr_glx_hybird should be xr_glx_hybrid, the misspelt version will be removed soon.''
            []])
      else if map tolower str = ''xr-glx-hybrid'' then
        Some (BKEND_XR_GLX_HYBRID,
          [Log LOG_WARN
            ''backend xr-glx-hybrid should be xr_glx_hybrid, the alternative version will be removed soon.''
            []])
      else Some (NUM_BKEND, [Log LOG_ERROR ''Invalid backend argument: %s'' [Arg_str str]]))"
proof -
  from assms have "backend_loop tbl str 0 = Some None"
    by (intro backend_loop_no_match) (simp_all add: strcasecmp_eq_0_iff)
  then show ?thesis
    by (simp add: parse_backend_def strcasecmp_hybird strcasecmp_dashes)
qed

lemma parse_backend_match:
  assumes "distinct (map (map tolower) (canonical_names tbl))"
    and "i < length (canonical_names tbl)"
    and "map tolower str = map tolower (canonical_names tbl ! i)"
  shows "parse_backend tbl str = Some (i, [])"
proof -
  have "\<forall>j<i. strcasecmp str (canonical_names tbl ! j) \<noteq> 0"
  proof (intro allI impI)
    fix j assume "j < i"
    with assms(2) have "j < length (map (map tolower) (canonical_names tbl))"
      "i < length (map (map tolower) (canonical_names tbl))" "j \<noteq> i" by simp_all
    with assms(1) have "map (map tolower) (canonical_names tbl) ! j \<noteq>
        map (map tolower) (canonical_names tbl) ! i"
      by (simp only: nth_eq_iff_index_eq not_False_eq_True)
    with \<open>j < i\<close> assms(2,3) show "strcasecmp str (canonical_names tbl ! j) \<noteq> 0"
      by (simp add: strcasecmp_eq_0_iff)
  qed
  with assms(2,3) have "backend_loop tbl str 0 = Some (Some (0 + i))"
    by (intro backend_loop_first_match) (simp_all add: strcasecmp_eq_0_iff)
  then show ?thesis by (simp add: parse_backend_def)
qed

text \<open>
  The string \<^verbatim>\<open>XR-GLX-HYBRID\<close> matches no name of the sample table in any letter case
  and is neither of the two strings \<^verbatim>\<open>xr_glx_hybird\<close> and \<^verbatim>\<open>xr-glx-hybrid\<close>, yet
  \<^verbatim>\<open>parse_backend\<close> returns \<^verbatim>\<open>BKEND_XR_GLX_HYBRID\<close> with a warning for it, not
  \<^verbatim>\<open>NUM_BKEND\<close>: the legacy comparisons are \<^verbatim>\<open>strcasecmp\<close> too.
\<close>

theorem parse_backend_other_string_counterexample:
  "backend_loop sample_backend_strs ''XR-GLX-HYBRID'' 0 = Some None
   \<and> ''XR-GLX-HYBRID'' \<noteq> ''xr_glx_hybird'' \<and> ''XR-GLX-HYBRID'' \<noteq> ''xr-glx-hybrid''
   \<and> parse_backend sample_backend_strs ''XR-GLX-HYBRID'' =
       Some (BKEND_XR_GLX_HYBRID,
         [Log LOG_WARN
           ''backend xr-glx-hybrid should be xr_glx_hybrid, the alternative version will be removed soon.''
           []])
   \<and> BKEND_XR_GLX_HYBRID \<noteq> NUM_BKEND"
  by code_simp

text \<open>
  C3, as the code has it. Let the table be null-terminated with names that are distinct up
  to letter case. For every string equal, up to letter case, to the canonical name at
  position \<open>i\<close>, \<^verbatim>\<open>parse_backend\<close> returns \<open>i\<close> and logs nothing. For every string
  that matches no canonical name and equals, up to letter case, one of the two legacy
  spellings, it returns \<^verbatim>\<open>BKEND_XR_GLX_HYBRID\<close> and emits one warning. For every
  remaining string it returns \<^verbatim>\<open>NUM_BKEND\<close> and emits one error naming the string.
\<close>

theorem parse_backend_cases:
  assumes null_terminated: "None \<in> set BACKEND_STRS"
    and distinct_names: "distinct (map (map tolower) (canonical_names BACKEND_STRS))"
  shows "(\<forall>i<length (canonical_names BACKEND_STRS).
            map tolower str = map tolower (canonical_names BACKEND_STRS ! i) \<longrightarrow>
            parse_backend BACKEND_STRS str = Some (i, []))
       \<and> ((\<forall>n\<in>set (canonical_names BACKEND_STRS). map tolower str \<noteq> map tolower n)
            \<and> map tolower str \<in> {''xr_glx_hybird'', ''xr-glx-hybrid''} \<longrightarrow>
          (\<exists>msg. parse_backend BACKEND_STRS str =
                   Some (BKEND_XR_GLX_HYBRID, [Log LOG_WARN msg []])))
       \<and> ((\<forall>n\<in>set (canonical_names BACKEND_STRS). map tolower str \<noteq> map tolower n)
            \<and> map tolower str \<notin> {''xr_glx_hybird'', ''xr-glx-hybrid''} \<longrightarrow>
          (\<exists>fmt. parse_backend BACKEND_STRS str =
                   Some (NUM_BKEND, [Log LOG_ERROR fmt [Arg_str str]])))"
proof (intro conjI allI impI)
  fix i
  assume "i < length (canonical_names BACKEND_STRS)"
    and "map tolower str = map tolower (canonical_names BACKEND_STRS ! i)"
  with distinct_names show "parse_backend BACKEND_STRS str = Some (i, [])"
    by (rule parse_backend_match)
next
  assume "(\<forall>n\<in>set (canonical_names BACKEND_STRS). map tolower str \<noteq> map tolower n)
            \<and> map tolower str \<in> {''xr_glx_hybird'', ''xr-glx-hybrid''}"
  then show "\<exists>msg. parse_backend BACKEND_STRS str =
                   Some (BKEND_XR_GLX_HYBRID, [Log LOG_WARN msg []])"
    using parse_backend_no_match [OF null_terminated, of str] by auto
next
  assume "(\<forall>n\<in>set (canonical_names BACKEND_STRS). map tolower str \<noteq> map tolower n)
            \<and> map tolower str \<notin> {''xr_glx_hybird'', ''xr-glx-hybrid''}"
  then show "\<exists>fmt. parse_backend BACKEND_STRS str =
                   Some (NUM_BKEND, [Log LOG_ERROR fmt [Arg_str str]])"
    using parse_backend_no_match [OF null_terminated, of str] by auto
qed

text \<open>
  The three cases on the sample table: \<^verbatim>\<open>GLX\<close> and \<^verbatim>\<open>Xr_Glx_Hybrid\<close> are canonical
  names in another letter case, \<^verbatim>\<open>xr_glx_hybird\<close> is a legacy spelling, \<^verbatim>\<open>opengl\<close>
  is neither.
\<close>

theorem parse_backend_cases_witness:
  "parse_backend sample_backend_strs ''GLX'' = Some (BKEND_GLX, [])
   \<and> parse_backend sample_backend_strs ''Xr_Glx_Hybrid'' = Some (BKEND_XR_GLX_HYBRID, [])
   \<and> map_option fst (parse_backend sample_backend_strs ''xr_glx_hybird'') =
       Some BKEND_XR_GLX_HYBRID
   \<and> map_option (map level_of \<circ> snd) (parse_backend sample_backend_strs ''xr_glx_hybird'') =
       Some [LOG_WARN]
   \<and> map_option fst (parse_backend sample_backend_strs ''opengl'') = Some NUM_BKEND
   \<and> map_option (map level_of \<circ> snd) (parse_backend sample_backend_strs ''opengl'') =
       Some [LOG_ERROR]"
proof -
  have nt: "None \<in> set sample_backend_strs"
    by (simp add: sample_backend_strs_def)
  have dn: "distinct (map (map tolower) (canonical_names sample_backend_strs))"
    by code_simp
  note cases = parse_backend_cases [OF nt dn]
  have "BKEND_GLX < length (canonical_names sample_backend_strs)"
    and "map tolower ''GLX'' = map tolower (canonical_names sample_backend_strs ! BKEND_GLX)"
    by code_simp+
  with cases [of "''GLX''", THEN conjunct1, rule_format, of BKEND_GLX]
  have glx: "parse_backend sample_backend_strs ''GLX'' = Some (BKEND_GLX, [])" .
  have "BKEND_XR_GLX_HYBRID < length (canonical_names sample_backend_strs)"
    and "map tolower ''Xr_Glx_Hybrid'' =
      map tolower (canonical_names sample_backend_strs ! BKEND_XR_GLX_HYBRID)"
    by code_simp+
  with cases [of "''Xr_Glx_Hybrid''", THEN conjunct1, rule_format, of BKEND_XR_GLX_HYBRID]
  have hybrid: "parse_backend sample_backend_strs ''Xr_Glx_Hybrid'' =
      Some (BKEND_XR_GLX_HYBRID, [])" .
  have "(\<forall>n\<in>set (canonical_names sample_backend_strs).
            map tolower ''xr_glx_hybird'' \<noteq> map tolower n)
        \<and> map tolower ''xr_glx_hybird'' \<in> {''xr_glx_hybird'', ''xr-glx-hybrid''}"
    by code_simp
  with cases [of "''xr_glx_hybird''", THEN conjunct2, THEN conjunct1]
  have "\<exists>msg. parse_backend sample_backend_strs ''xr_glx_hybird'' =
      Some (BKEND_XR_GLX_HYBRID, [Log LOG_WARN msg []])"
    by (rule mp)
  then have legacy: "map_option fst (parse_backend sample_backend_strs ''xr_glx_hybird'') =
       Some BKEND_XR_GLX_HYBRID
     \<and> map_option (map level_of \<circ> snd) (parse_backend sample_backend_strs ''xr_glx_hybird'') =
       Some [LOG_WARN]"
    by (elim exE) (simp only: option.map prod.sel comp_apply list.map level_of.simps simp_thms)
  have "(\<forall>n\<in>set (canonical_names sample_backend_strs).
            map tolower ''opengl'' \<noteq> map tolower n)
        \<and> map tolower ''opengl'' \<notin> {''xr_glx_hybird'', ''xr-glx-hybrid''}"
    by code_simp
  with cases [of "''opengl''", THEN conjunct2, THEN conjunct2]
  have "\<exists>fmt. parse_backend sample_backend_strs ''opengl'' =
      Some (NUM_BKEND, [Log LOG_ERROR fmt [Arg_str ''opengl'']])"
    by (rule mp)
  then have other: "map_option fst (parse_backend sample_backend_strs ''opengl'') = Some NUM_BKEND
     \<and> map_option (map level_of \<circ> snd) (parse_backend sample_backend_strs ''opengl'') =
       Some [LOG_ERROR]"
    by (elim exE) (simp only: option.map prod.sel comp_apply list.map level_of.simps simp_thms)
  from glx hybrid legacy other show ?thesis
    by (simp only: simp_thms)
qed

text \<open>
  C10. Let the table have the declared size \<^verbatim>\<open>NUM_BKEND + 1\<close>, be null-terminated, and
  hold no name that is a letter-case variant of a legacy spelling. Then every letter-case
  variant of \<^verbatim>\<open>xr_glx_hybird\<close> and of \<^verbatim>\<open>xr-glx-hybrid\<close> is parsed to
  \<^verbatim>\<open>BKEND_XR_GLX_HYBRID\<close>, and for every string the function returns a value that is
  below \<^verbatim>\<open>NUM_BKEND\<close> or is \<^verbatim>\<open>NUM_BKEND\<close>.
\<close>

theorem parse_backend_legacy_any_case:
  assumes null_terminated: "None \<in> set BACKEND_STRS"
    and declared_size: "length BACKEND_STRS = NUM_BKEND + 1"
    and legacy_free: "\<forall>n\<in>set (canonical_names BACKEND_STRS).
          map tolower n \<notin> {''xr_glx_hybird'', ''xr-glx-hybrid''}"
  shows "(map tolower str \<in> {''xr_glx_hybird'', ''xr-glx-hybrid''} \<longrightarrow>
            map_option fst (parse_backend BACKEND_STRS str) = Some BKEND_XR_GLX_HYBRID)
       \<and> (\<exists>r logs. parse_backend BACKEND_STRS str = Some (r, logs)
            \<and> (r < NUM_BKEND \<or> r = NUM_BKEND))"
proof (intro conjI impI)
  assume v: "map tolower str \<in> {''xr_glx_hybird'', ''xr-glx-hybrid''}"
  with legacy_free have "\<forall>n\<in>set (canonical_names BACKEND_STRS). map tolower str \<noteq> map tolower n"
    by auto
  from parse_backend_no_match [OF null_terminated this] v
  show "map_option fst (parse_backend BACKEND_STRS str) = Some BKEND_XR_GLX_HYBRID"
    by auto
next
  show "\<exists>r logs. parse_backend BACKEND_STRS str = Some (r, logs)
            \<and> (r < NUM_BKEND \<or> r = NUM_BKEND)"
  proof (cases "backend_loop BACKEND_STRS str 0")
    case None
    with backend_loop_defined [OF null_terminated] show ?thesis by blast
  next
    case (Some res)
    show ?thesis
    proof (cases res)
      case None
      with Some show ?thesis
        by (simp add: parse_backend_def BKEND_XR_GLX_HYBRID_def NUM_BKEND_def)
    next
      case (Some r)
      with \<open>backend_loop BACKEND_STRS str 0 = Some res\<close>
      have l: "backend_loop BACKEND_STRS str 0 = Some (Some r)" by simp
      from backend_loop_returns [OF l] have "r < length (canonical_names BACKEND_STRS)"
        by simp
      also from length_canonical_names [OF null_terminated] declared_size
      have "length (canonical_names BACKEND_STRS) \<le> NUM_BKEND" by simp
      finally show ?thesis using l by (simp add: parse_backend_def)
    qed
  qed
qed

text \<open>Two mixed-case legacy spellings on the sample table.\<close>

theorem parse_backend_legacy_any_case_witness:
  "map_option fst (parse_backend sample_backend_strs ''Xr-Glx-Hybrid'') = Some BKEND_XR_GLX_HYBRID
   \<and> map_option fst (parse_backend sample_backend_strs ''XR_GLX_HYBIRD'') = Some BKEND_XR_GLX_HYBRID
   \<and> BKEND_XR_GLX_HYBRID < NUM_BKEND"
proof -
  have nt: "None \<in> set sample_backend_strs"
    by (simp add: sample_backend_strs_def)
  have sz: "length sample_backend_strs = NUM_BKEND + 1"
    by (simp add: sample_backend_strs_def NUM_BKEND_def)
  have lf: "\<forall>n\<in>set (canonical_names sample_backend_strs).
          map tolower n \<notin> {''xr_glx_hybird'', ''xr-glx-hybrid''}"
    by code_simp
  note legacy = parse_backend_legacy_any_case [OF nt sz lf, THEN conjunct1, THEN mp]
  have "map tolower ''Xr-Glx-Hybrid'' \<in> {''xr_glx_hybird'', ''xr-glx-hybrid''}"
    by code_simp
  then have dashes: "map_option fst (parse_backend sample_backend_strs ''Xr-Glx-Hybrid'') =
      Some BKEND_XR_GLX_HYBRID"
    by (rule legacy)
  have "map tolower ''XR_GLX_HYBIRD'' \<in> {''xr_glx_hybird'', ''xr-glx-hybrid''}"
    by code_simp
  then have hybird: "map_option fst (parse_backend sample_backend_strs ''XR_GLX_HYBIRD'') =
      Some BKEND_XR_GLX_HYBRID"
    by (rule legacy)
  have "BKEND_XR_GLX_HYBRID < NUM_BKEND"
    by (simp add: BKEND_XR_GLX_HYBRID_def NUM_BKEND_def)
  with dashes hybird show ?thesis
    by (simp only: simp_thms)
qed

subsection \<open>\<^verbatim>\<open>set_default_winopts\<close>\<close>

lemma default_winopt_twice:
  "default_winopt u se fe m (default_winopt u se fe m w) = default_winopt u se fe m w"
  by (simp add: default_winopt_def)

lemma map2_default_winopt_twice:
  "map2 (default_winopt u se fe) winopt_mask (map2 (default_winopt u se fe) winopt_mask ws) =
   map2 (default_winopt u se fe) winopt_mask ws"
proof (induction winopt_mask arbitrary: ws)
  case Nil
  show ?case by simp
next
  case (Cons m winopt_mask)
  show ?case
  proof (cases ws)
    case Nil
    then show ?thesis by simp
  next
    case (Cons w ws')
    with Cons.IH [of ws'] show ?thesis by (simp add: default_winopt_twice)
  qed
qed

lemma set_default_winopts_nth:
  assumes "length winopt_mask = length (wintype_option opt)" and "i < length (wintype_option opt)"
  shows "wintype_option (set_default_winopts u opt winopt_mask se fe) ! i =
     default_winopt u se fe (winopt_mask ! i) (wintype_option opt ! i)"
  using assms by (simp add: set_default_winopts_def)

lemma length_set_default_winopts:
  "length (wintype_option (set_default_winopts u opt winopt_mask se fe)) =
     min (length winopt_mask) (length (wintype_option opt))"
  by (simp add: set_default_winopts_def)

text \<open>
  C1. For every window type \<open>i\<close> and every field of its \<^verbatim>\<open>win_option_t\<close>, the field
  after \<^verbatim>\<open>set_default_winopts\<close> is its value before when the mask bit is set, and the
  computed default when it is not: the gate \<^verbatim>\<open>shadow_enable\<close> for shadow, the gate
  \<^verbatim>\<open>fading_enable\<close> for fade, the sentinel for opacity, corner-radius and round-borders,
  and false for focus, full-shadow and ignore-on-redirect. In particular an opacity set
  to 0.5 with its mask bit set is 0.5 afterwards, whatever the two gates are.
\<close>

theorem set_default_winopts_fields:
  assumes "length winopt_mask = length (wintype_option opt)" and "i < length (wintype_option opt)"
  shows "let m = winopt_mask ! i; w = wintype_option opt ! i;
             w' = wintype_option (set_default_winopts unset opt winopt_mask shadow_enable fading_enable) ! i
         in length (wintype_option (set_default_winopts unset opt winopt_mask shadow_enable fading_enable))
              = length (wintype_option opt)
          \<and> win_option.shadow w' =
              (if win_option_mask.shadow m then win_option.shadow w else shadow_enable)
          \<and> win_option.fade w' =
              (if win_option_mask.fade m then win_option.fade w else fading_enable)
          \<and> win_option.focus w' =
              (if win_option_mask.focus m then win_option.focus w else False)
          \<and> win_option.full_shadow w' =
              (if win_option_mask.full_shadow m then win_option.full_shadow w else False)
          \<and> win_option.redir_ignore w' =
              (if win_option_mask.redir_ignore m then win_option.redir_ignore w else False)
          \<and> win_option.opacity w' =
              (if win_option_mask.opacity m then win_option.opacity w else opacity_unset unset)
          \<and> win_option.corner_radius w' =
              (if win_option_mask.corner_radius m then win_option.corner_radius w
               else corner_radius_unset unset)
          \<and> win_option.round_borders w' =
              (if win_option_mask.round_borders m then win_option.round_borders w
               else round_borders_unset unset)
          \<and> (win_option_mask.opacity m \<and> win_option.opacity w = double_half \<longrightarrow>
               win_option.opacity w' = double_half)"
  using assms
  by (simp add: Let_def set_default_winopts_nth length_set_default_winopts default_winopt_def)

text \<open>
  The second window type of the sample: its opacity 0.5 is kept, the other fields get
  their defaults for the gates shadow on, fade off.
\<close>

theorem set_default_winopts_fields_witness:
  "win_option.opacity
     (wintype_option (set_default_winopts sample_unset sample_options sample_winopt_mask
        True False) ! 1) = double_half
   \<and> win_option.shadow
     (wintype_option (set_default_winopts sample_unset sample_options sample_winopt_mask
        True False) ! 1) = True
   \<and> win_option.fade
     (wintype_option (set_default_winopts sample_unset sample_options sample_winopt_mask
        True False) ! 1) = False
   \<and> win_option.focus
     (wintype_option (set_default_winopts sample_unset sample_options sample_winopt_mask
        True False) ! 1) = False
   \<and> win_option.corner_radius
     (wintype_option (set_default_winopts sample_unset sample_options sample_winopt_mask
        True False) ! 1) = corner_radius_unset sample_unset"
proof -
  have len: "length sample_winopt_mask = length (wintype_option sample_options)"
    by (simp add: sample_winopt_mask_def sample_options_def)
  have idx: "1 < length (wintype_option sample_options)"
    by (simp add: sample_options_def)
  have bits: "win_option_mask.opacity (sample_winopt_mask ! 1)"
    "\<not> win_option_mask.shadow (sample_winopt_mask ! 1)"
    "\<not> win_option_mask.fade (sample_winopt_mask ! 1)"
    "\<not> win_option_mask.focus (sample_winopt_mask ! 1)"
    "\<not> win_option_mask.corner_radius (sample_winopt_mask ! 1)"
    by (simp_all add: sample_winopt_mask_def)
  have val: "win_option.opacity (wintype_option sample_options ! 1) = double_half"
    by (simp add: sample_options_def)
  from set_default_winopts_fields [OF len idx, of sample_unset True False] bits val
  show ?thesis
    by (simp add: Let_def)
qed

text \<open>
  C5. For every options record, mask and pair of gates, resolving twice with the same
  mask and gates gives the same options as resolving once; and for every window type,
  resolving leaves every field whose mask bit is set as it was.
\<close>

theorem set_default_winopts_idempotent:
  "set_default_winopts unset
     (set_default_winopts unset opt winopt_mask shadow_enable fading_enable)
     winopt_mask shadow_enable fading_enable
   = set_default_winopts unset opt winopt_mask shadow_enable fading_enable
   \<and> (length winopt_mask = length (wintype_option opt) \<and> i < length (wintype_option opt) \<longrightarrow>
       (let m = winopt_mask ! i; w = wintype_option opt ! i;
            w' = wintype_option
                   (set_default_winopts unset opt winopt_mask shadow_enable fading_enable) ! i
        in (win_option_mask.shadow m \<longrightarrow> win_option.shadow w' = win_option.shadow w)
         \<and> (win_option_mask.fade m \<longrightarrow> win_option.fade w' = win_option.fade w)
         \<and> (win_option_mask.focus m \<longrightarrow> win_option.focus w' = win_option.focus w)
         \<and> (win_option_mask.full_shadow m \<longrightarrow>
              win_option.full_shadow w' = win_option.full_shadow w)
         \<and> (win_option_mask.redir_ignore m \<longrightarrow>
              win_option.redir_ignore w' = win_option.redir_ignore w)
         \<and> (win_option_mask.opacity m \<longrightarrow> win_option.opacity w' = win_option.opacity w)
         \<and> (win_option_mask.corner_radius m \<longrightarrow>
              win_option.corner_radius w' = win_option.corner_radius w)
         \<and> (win_option_mask.round_borders m \<longrightarrow>
              win_option.round_borders w' = win_option.round_borders w)))"
proof (intro conjI impI)
  show "set_default_winopts unset
     (set_default_winopts unset opt winopt_mask shadow_enable fading_enable)
     winopt_mask shadow_enable fading_enable
   = set_default_winopts unset opt winopt_mask shadow_enable fading_enable"
    by (simp add: set_default_winopts_def map2_default_winopt_twice)
next
  assume "length winopt_mask = length (wintype_option opt) \<and> i < length (wintype_option opt)"
  then have "wintype_option
        (set_default_winopts unset opt winopt_mask shadow_enable fading_enable) ! i =
      default_winopt unset shadow_enable fading_enable (winopt_mask ! i)
        (wintype_option opt ! i)"
    by (simp add: set_default_winopts_nth)
  then show "let m = winopt_mask ! i; w = wintype_option opt ! i;
            w' = wintype_option
                   (set_default_winopts unset opt winopt_mask shadow_enable fading_enable) ! i
        in (win_option_mask.shadow m \<longrightarrow> win_option.shadow w' = win_option.shadow w)
         \<and> (win_option_mask.fade m \<longrightarrow> win_option.fade w' = win_option.fade w)
         \<and> (win_option_mask.focus m \<longrightarrow> win_option.focus w' = win_option.focus w)
         \<and> (win_option_mask.full_shadow m \<longrightarrow>
              win_option.full_shadow w' = win_option.full_shadow w)
         \<and> (win_option_mask.redir_ignore m \<longrightarrow>
              win_option.redir_ignore w' = win_option.redir_ignore w)
         \<and> (win_option_mask.opacity m \<longrightarrow> win_option.opacity w' = win_option.opacity w)
         \<and> (win_option_mask.corner_radius m \<longrightarrow>
              win_option.corner_radius w' = win_option.corner_radius w)
         \<and> (win_option_mask.round_borders m \<longrightarrow>
              win_option.round_borders w' = win_option.round_borders w)"
    by (simp add: Let_def default_winopt_def)
qed

text \<open>The sample resolved twice, and the opacity of its second window type.\<close>

theorem set_default_winopts_idempotent_witness:
  "set_default_winopts sample_unset
     (set_default_winopts sample_unset sample_options sample_winopt_mask True False)
     sample_winopt_mask True False
   = set_default_winopts sample_unset sample_options sample_winopt_mask True False
   \<and> win_option.opacity
       (wintype_option (set_default_winopts sample_unset sample_options sample_winopt_mask
          True False) ! 1)
     = win_option.opacity (wintype_option sample_options ! 1)"
proof -
  have len: "length sample_winopt_mask = length (wintype_option sample_options)"
    by (simp add: sample_winopt_mask_def sample_options_def)
  have idx: "1 < length (wintype_option sample_options)"
    by (simp add: sample_options_def)
  have bit: "win_option_mask.opacity (sample_winopt_mask ! 1)"
    by (simp add: sample_winopt_mask_def)
  from set_default_winopts_idempotent
    [where unset = sample_unset and opt = sample_options and winopt_mask = sample_winopt_mask
       and shadow_enable = True and fading_enable = False and i = 1]
    len idx bit
  show ?thesis
    by (simp add: Let_def)
qed

subsection \<open>\<^verbatim>\<open>condlst_add\<close> and \<^verbatim>\<open>parse_rule_opacity\<close>\<close>

lemma split_rule_append:
  assumes "CHR '':'' \<notin> set opacity_str"
  shows "split_rule (pattern @ CHR '':'' # opacity_str) = Some (pattern, opacity_str)"
proof -
  from assms have no_colon: "\<forall>c\<in>set (rev opacity_str). c \<noteq> CHR '':''"
    by auto
  then have "takeWhile (\<lambda>c. c \<noteq> CHR '':'') (rev opacity_str @ CHR '':'' # rev pattern) =
      rev opacity_str"
    by (simp add: takeWhile_tail)
  moreover from no_colon
  have "dropWhile (\<lambda>c. c \<noteq> CHR '':'') (rev opacity_str @ CHR '':'' # rev pattern) =
      CHR '':'' # rev pattern"
    by (simp add: dropWhile_append3)
  ultimately show ?thesis by (simp add: split_rule_def)
qed

lemma split_rule_no_colon: "CHR '':'' \<notin> set src \<Longrightarrow> split_rule src = None"
  by (simp add: split_rule_def)

lemma condlst_add_all_first:
  assumes "\<forall>pattern\<in>set patterns. c2_parse pattern \<noteq> None"
  shows "condlst_add_all First_parsed_first c2_parse lst patterns =
     (replicate (length patterns) True,
      lst @ map (\<lambda>pattern. (the (c2_parse pattern), None)) patterns)"
  using assms
proof (induction patterns arbitrary: lst)
  case Nil
  show ?case by simp
next
  case (Cons pattern patterns)
  then obtain p where p: "c2_parse pattern = Some p" by auto
  from Cons.prems have "\<forall>pattern\<in>set patterns. c2_parse pattern \<noteq> None" by simp
  note ih = Cons.IH [OF this]
  show ?case
    by (simp add: condlst_add_def p c2_insert_def ih)
qed

lemma condlst_add_all_last:
  assumes "\<forall>pattern\<in>set patterns. c2_parse pattern \<noteq> None"
  shows "condlst_add_all Last_parsed_first c2_parse lst patterns =
     (replicate (length patterns) True,
      rev (map (\<lambda>pattern. (the (c2_parse pattern), None)) patterns) @ lst)"
  using assms
proof (induction patterns arbitrary: lst)
  case Nil
  show ?case by simp
next
  case (Cons pattern patterns)
  then obtain p where p: "c2_parse pattern = Some p" by auto
  from Cons.prems have "\<forall>pattern\<in>set patterns. c2_parse pattern \<noteq> None" by simp
  note ih = Cons.IH [OF this]
  show ?case
    by (simp add: condlst_add_def p c2_insert_def ih)
qed

text \<open>
  C6. \<^verbatim>\<open>condlst_add\<close> with a pattern the grammar rejects returns failure and leaves the
  list as it was. \<^verbatim>\<open>parse_rule_opacity\<close> returns failure and leaves the list as it was
  when its string has no colon, and when it is \<^verbatim>\<open><pattern>:<opacity>\<close> (the opacity
  part free of colons) with a pattern part the grammar rejects or an opacity part the
  opacity parser rejects. Consecutive calls of \<^verbatim>\<open>condlst_add\<close> with \<open>N\<close> valid
  patterns all return success and make the list \<open>N\<close> nodes longer; the new nodes stand,
  in call order, after the old ones under first-parsed-first, and in reverse call order
  before the old ones under last-parsed-first.
\<close>

theorem condlst_add_atomic_and_ordered:
  "(c2_parse pattern = None \<longrightarrow>
      condlst_add ord c2_parse lst pattern = (False, lst))
   \<and> (CHR '':'' \<notin> set src \<longrightarrow>
      parse_rule_opacity ord c2_parse parse_opacity lst src = (False, lst))
   \<and> (CHR '':'' \<notin> set opacity_str
        \<and> (c2_parse pattern = None \<or> parse_opacity opacity_str = None) \<longrightarrow>
      parse_rule_opacity ord c2_parse parse_opacity lst (pattern @ '':'' @ opacity_str) =
        (False, lst))
   \<and> ((\<forall>pattern\<in>set patterns. c2_parse pattern \<noteq> None) \<longrightarrow>
      fst (condlst_add_all ord c2_parse lst patterns) = replicate (length patterns) True
      \<and> length (snd (condlst_add_all ord c2_parse lst patterns)) =
          length lst + length patterns
      \<and> snd (condlst_add_all ord c2_parse lst patterns) =
          (case ord of
             First_parsed_first \<Rightarrow>
               lst @ map (\<lambda>pattern. (the (c2_parse pattern), None)) patterns
           | Last_parsed_first \<Rightarrow>
               rev (map (\<lambda>pattern. (the (c2_parse pattern), None)) patterns) @ lst))"
proof (intro conjI impI)
  assume "c2_parse pattern = None"
  then show "condlst_add ord c2_parse lst pattern = (False, lst)"
    by (simp add: condlst_add_def)
next
  assume "CHR '':'' \<notin> set src"
  then show "parse_rule_opacity ord c2_parse parse_opacity lst src = (False, lst)"
    by (simp add: parse_rule_opacity_def split_rule_no_colon)
next
  assume "CHR '':'' \<notin> set opacity_str
        \<and> (c2_parse pattern = None \<or> parse_opacity opacity_str = None)"
  then show "parse_rule_opacity ord c2_parse parse_opacity lst (pattern @ '':'' @ opacity_str) =
        (False, lst)"
    by (auto simp add: parse_rule_opacity_def split_rule_append split: option.splits)
next
  assume valid: "\<forall>pattern\<in>set patterns. c2_parse pattern \<noteq> None"
  show "fst (condlst_add_all ord c2_parse lst patterns) = replicate (length patterns) True"
    by (cases ord) (simp_all add: condlst_add_all_first [OF valid] condlst_add_all_last [OF valid])
  show "length (snd (condlst_add_all ord c2_parse lst patterns)) = length lst + length patterns"
    by (cases ord) (simp_all add: condlst_add_all_first [OF valid] condlst_add_all_last [OF valid])
  show "snd (condlst_add_all ord c2_parse lst patterns) =
          (case ord of
             First_parsed_first \<Rightarrow>
               lst @ map (\<lambda>pattern. (the (c2_parse pattern), None)) patterns
           | Last_parsed_first \<Rightarrow>
               rev (map (\<lambda>pattern. (the (c2_parse pattern), None)) patterns) @ lst)"
    by (cases ord) (simp_all add: condlst_add_all_first [OF valid] condlst_add_all_last [OF valid])
qed

text \<open>
  With the stand-in parsers and a list of one node: an empty pattern, a rule without a
  colon, a rule with an empty pattern, a rule with the opacity \<^verbatim>\<open>5x\<close>, and three valid
  patterns added in a row under either order.
\<close>

theorem condlst_add_atomic_and_ordered_witness:
  "condlst_add Last_parsed_first sample_c2_parse [(''a'', Some (1::nat))] [] =
     (False, [(''a'', Some 1)])
   \<and> parse_rule_opacity Last_parsed_first sample_c2_parse sample_parse_opacity
       [(''a'', Some 1)] ''name = 1'' = (False, [(''a'', Some 1)])
   \<and> parse_rule_opacity Last_parsed_first sample_c2_parse sample_parse_opacity
       [(''a'', Some 1)] ([] @ '':'' @ ''50'') = (False, [(''a'', Some 1)])
   \<and> parse_rule_opacity Last_parsed_first sample_c2_parse sample_parse_opacity
       [(''a'', Some 1)] (''name = 1'' @ '':'' @ ''5x'') = (False, [(''a'', Some 1)])
   \<and> snd (condlst_add_all Last_parsed_first sample_c2_parse [(''a'', Some (1::nat))]
            [''b'', ''c'', ''d'']) =
       [(''d'', None), (''c'', None), (''b'', None), (''a'', Some 1)]
   \<and> snd (condlst_add_all First_parsed_first sample_c2_parse [(''a'', Some (1::nat))]
            [''b'', ''c'', ''d'']) =
       [(''a'', Some 1), (''b'', None), (''c'', None), (''d'', None)]"
proof -
  note inst = condlst_add_atomic_and_ordered
    [where c2_parse = sample_c2_parse and parse_opacity = sample_parse_opacity
       and lst = "[(''a'', Some (1::nat))]"]
  have h1: "sample_c2_parse [] = None"
    by (simp add: sample_c2_parse_def)
  have h2: "CHR '':'' \<notin> set ''name = 1''"
    by simp
  have h3: "CHR '':'' \<notin> set ''50''
      \<and> (sample_c2_parse [] = None \<or> sample_parse_opacity ''50'' = None)"
    by (simp add: sample_c2_parse_def)
  have h4: "CHR '':'' \<notin> set ''5x''
      \<and> (sample_c2_parse ''name = 1'' = None \<or> sample_parse_opacity ''5x'' = None)"
    by (simp add: sample_parse_opacity_def)
  have h5: "\<forall>pattern\<in>set [''b'', ''c'', ''d'']. sample_c2_parse pattern \<noteq> None"
    by (simp add: sample_c2_parse_def)
  from inst [where pattern = "[]" and ord = Last_parsed_first,
      THEN conjunct1, THEN mp, OF h1]
    inst [where ord = Last_parsed_first and src = "''name = 1''",
      THEN conjunct2, THEN conjunct1, THEN mp, OF h2]
    inst [where pattern = "[]" and ord = Last_parsed_first and opacity_str = "''50''",
      THEN conjunct2, THEN conjunct2, THEN conjunct1, THEN mp, OF h3]
    inst [where pattern = "''name = 1''" and ord = Last_parsed_first and opacity_str = "''5x''",
      THEN conjunct2, THEN conjunct2, THEN conjunct1, THEN mp, OF h4]
    inst [where ord = Last_parsed_first and patterns = "[''b'', ''c'', ''d'']",
      THEN conjunct2, THEN conjunct2, THEN conjunct2, THEN mp, OF h5]
    inst [where ord = First_parsed_first and patterns = "[''b'', ''c'', ''d'']",
      THEN conjunct2, THEN conjunct2, THEN conjunct2, THEN mp, OF h5]
  show ?thesis
    by (simp add: sample_c2_parse_def del: condlst_add_all.simps)
qed

end
